theory Spec2Isabelle
  imports Complex_Main "HOL-Library.Char_ord" "HOL-Library.List_Lexorder"
begin

section \<open>Strings and numbers of the host language\<close>

text \<open>
  A source string is modelled as a \<^typ>\<open>string\<close>: one \<^typ>\<open>char\<close> per UTF-16 code unit,
  restricted to the code units below 256. Identifiers (\<open>id: string\<close>) are compared with the
  lexicographic order on such strings.
\<close>

definition isWhiteSpace :: "char \<Rightarrow> bool" where
  \<comment> \<open>The white space and line terminator code units below 256 that \<open>String.prototype.trim\<close>
      and \<open>parseFloat\<close> strip: TAB, LF, VT, FF, CR, SPACE, NBSP.\<close>
  "isWhiteSpace c = (of_char c \<in> {9, 10, 11, 12, 13, 32, 160 :: nat})"

definition trimStart :: "string \<Rightarrow> string" where
  "trimStart s = dropWhile isWhiteSpace s"

definition trim :: "string \<Rightarrow> string" where
  \<comment> \<open>\<open>s.trim()\<close>\<close>
  "trim s = rev (dropWhile isWhiteSpace (rev (dropWhile isWhiteSpace s)))"

definition toLower :: "char \<Rightarrow> char" where
  \<comment> \<open>Simple case folding: the letters A to Z (0x41 to 0x5A) get bit 5 set, all other code
      units are left alone.\<close>
  "toLower c =
     (if CHR ''A'' \<le> c \<and> c \<le> CHR ''Z''
      then (case c of Char b0 b1 b2 b3 b4 b5 b6 b7 \<Rightarrow> Char b0 b1 b2 b3 b4 True b6 b7)
      else c)"

definition startsWith :: "string \<Rightarrow> string \<Rightarrow> bool" where
  \<comment> \<open>\<open>s.startsWith(p)\<close>\<close>
  "startsWith s p = (take (length p) s = p)"

fun hasSubstring :: "string \<Rightarrow> string \<Rightarrow> bool" where
  \<comment> \<open>\<open>needle\<close> occurs in \<open>hay\<close> as a contiguous substring.\<close>
  "hasSubstring [] needle = (needle = [])"
| "hasSubstring (c # cs) needle = (startsWith (c # cs) needle \<or> hasSubstring cs needle)"

subsection \<open>Numbers and \<open>parseFloat\<close>\<close>

text \<open>
  A source \<open>number\<close> is \<open>NaN\<close>, an infinity or a finite value. Finite values are kept as the
  exact decimal value read (a rational): rounding to the nearest binary64 value, underflow and
  the sign of zero are not modelled; overflow to an infinity is.
\<close>

datatype number = NaN | Finite rat | PosInfinity | NegInfinity

definition isNaN :: "number \<Rightarrow> bool" where
  "isNaN n = (n = NaN)"

definition isDigit :: "char \<Rightarrow> bool" where
  "isDigit c = (CHR ''0'' \<le> c \<and> c \<le> CHR ''9'')"

definition digitsValue :: "string \<Rightarrow> nat" where
  "digitsValue ds = foldl (\<lambda>a c. 10 * a + (of_char c - 48)) 0 ds"

definition exponentPart :: "string \<Rightarrow> int" where
  \<comment> \<open>The value of an optional \<open>ExponentPart\<close> at the head of the string; an \<open>e\<close> with no digit
      after it is not part of the literal.\<close>
  "exponentPart s =
     (if startsWith s ''e'' \<or> startsWith s ''E'' then
        (let r = tl s;
             neg = startsWith r ''-'';
             r' = (if startsWith r ''-'' \<or> startsWith r ''+'' then tl r else r);
             ds = takeWhile isDigit r'
         in if ds = [] then 0
            else if neg then - int (digitsValue ds) else int (digitsValue ds))
      else 0)"

definition toNumber :: "rat \<Rightarrow> number" where
  \<comment> \<open>A non-negative magnitude as a number: from \<open>2^1024 - 2^970\<close> on, binary64 rounds to infinity.\<close>
  "toNumber q = (if 2 ^ 1024 - 2 ^ 970 \<le> q then PosInfinity else Finite q)"

definition strUnsignedDecimalLiteral :: "string \<Rightarrow> number" where
  \<comment> \<open>The longest prefix that is a \<open>StrUnsignedDecimalLiteral\<close>: \<open>Infinity\<close>, or digits with an
      optional fraction and exponent, or a fraction with an optional exponent; \<open>NaN\<close> if none.\<close>
  "strUnsignedDecimalLiteral s =
     (if startsWith s ''Infinity'' then PosInfinity
      else
        (let ip = takeWhile isDigit s;
             r1 = dropWhile isDigit s;
             hasDot = startsWith r1 ''.'';
             fp = (if hasDot then takeWhile isDigit (tl r1) else []);
             r2 = (if hasDot then dropWhile isDigit (tl r1) else r1);
             m = of_nat (digitsValue ip) + of_nat (digitsValue fp) / 10 ^ length fp;
             e = exponentPart r2
         in if ip = [] \<and> fp = [] then NaN
            else toNumber (if 0 \<le> e then m * 10 ^ nat e else m / 10 ^ nat (- e))))"

fun negate :: "number \<Rightarrow> number" where
  "negate NaN = NaN"
| "negate (Finite q) = Finite (- q)"
| "negate PosInfinity = NegInfinity"
| "negate NegInfinity = PosInfinity"

definition parseFloat :: "string \<Rightarrow> number" where
  \<comment> \<open>\<open>parseFloat(s)\<close>: leading white space is skipped, then an optional sign, then the longest
      decimal literal; whatever follows is ignored.\<close>
  "parseFloat s =
     (let t = trimStart s
      in if startsWith t ''-'' then negate (strUnsignedDecimalLiteral (tl t))
         else if startsWith t ''+'' then strUnsignedDecimalLiteral (tl t)
         else strUnsignedDecimalLiteral t)"

subsection \<open>Form data\<close>

text \<open>
  A \<open>FormData\<close> is its list of entries; \<open>formData.get(k)\<close> is the first value under \<open>k\<close>, or
  \<open>null\<close> (\<open>None\<close>). All values are strings (the actions cast them \<open>as string\<close>).
\<close>

type_synonym FormData = "(string \<times> string) list"

definition formData_get :: "FormData \<Rightarrow> string \<Rightarrow> string option" where
  "formData_get formData k = map_of formData k"

fun truthy :: "string option \<Rightarrow> bool" where
  \<comment> \<open>\<open>null\<close>, \<open>undefined\<close> and the empty string are falsy.\<close>
  "truthy None = False"
| "truthy (Some s) = (s \<noteq> [])"

fun toString :: "string option \<Rightarrow> string" where
  \<comment> \<open>What a built-in expecting a string makes of the value: \<open>null\<close> becomes the text \<open>null\<close>.\<close>
  "toString None = ''null''"
| "toString (Some s) = s"

section \<open>The Service entity\<close>

text \<open>
  \<open>FilterActive\<close> (\<open>src/lib/types/services.ts\<close>) is \<open>{ isActive: 'true' | 'false' | 'all' }\<close>.
  The page casts the \<open>status\<close> query parameter to it unchecked, so the field is any string.
\<close>

record FilterActive =
  isActive :: string

text \<open>
  \<open>interface Service\<close>: the five fields a form supplies, extended by the three the persistence
  layer owns. Timestamps are milliseconds.
\<close>

record ServiceData =
  name :: string
  description :: string
  price :: number
  isActive :: bool
  isFeatured :: bool

record Service = ServiceData +
  id' :: string
  createdAt :: int
  updatedAt :: int

section \<open>The persistence layer\<close>

text \<open>
  The actions reach the collection through the generated client \<open>prisma.service\<close> (imported
  from \<open>@/lib/prisma\<close>), whose code is absent. Its calls are modelled below from the
  specification. A call either returns or throws; the collection is a list in insertion order.
\<close>

datatype 'a Outcome = Throws | Returns 'a

datatype QueryMode = Default | Insensitive

record StringFilter =
  contains :: string
  mode :: QueryMode

text \<open>An element of \<open>OR\<close>: \<open>{ name?: ..., description?: ... }\<close>.\<close>

record ServiceCondition =
  cond_name :: "StringFilter option"
  cond_description :: "StringFilter option"

text \<open>\<open>whereClause\<close>: \<open>{ isActive?: boolean; OR?: Array<...> }\<close>.\<close>

record WhereClause =
  where_isActive :: "bool option"
  where_OR :: "ServiceCondition list option"

datatype SortOrder = Asc | Desc

record OrderBy =
  orderBy_createdAt :: SortOrder

text \<open>
  What one call finds in its environment: whether the persistence layer answers, the current
  time, and the identifier the layer generates should the call insert a document.
\<close>

record Env =
  reachable :: bool
  now :: int
  generatedId :: string

text \<open>The collection, and the cache tags and paths invalidated so far.\<close>

record State =
  services :: "Service list"
  revalidatedTags :: "string list"
  revalidatedPaths :: "string list"

definition stringFilterMatches :: "StringFilter \<Rightarrow> string \<Rightarrow> bool" where
  \<comment> \<open>Modelled from the spec: the substring test of the absent query engine; with mode
      \<open>insensitive\<close> both sides are case-folded first.\<close>
  "stringFilterMatches f v =
     (case mode f of
        Insensitive \<Rightarrow> hasSubstring (map toLower v) (map toLower (contains f))
      | Default \<Rightarrow> hasSubstring v (contains f))"

definition conditionMatches :: "ServiceCondition \<Rightarrow> Service \<Rightarrow> bool" where
  \<comment> \<open>Modelled from the spec: the absent query engine's reading of one \<open>OR\<close> element; every
      field filter present in it must hold.\<close>
  "conditionMatches c r =
     ((case cond_name c of None \<Rightarrow> True | Some f \<Rightarrow> stringFilterMatches f (name r)) \<and>
      (case cond_description c of None \<Rightarrow> True | Some f \<Rightarrow> stringFilterMatches f (description r)))"

definition whereMatches :: "WhereClause \<Rightarrow> Service \<Rightarrow> bool" where
  \<comment> \<open>Modelled from the spec: the absent query engine's reading of a where clause; an absent
      key constrains nothing, the keys present combine with AND, the elements of \<open>OR\<close> with OR.\<close>
  "whereMatches w r =
     ((case where_isActive w of None \<Rightarrow> True | Some b \<Rightarrow> isActive r = b) \<and>
      (case where_OR w of None \<Rightarrow> True | Some cs \<Rightarrow> list_ex (\<lambda>c. conditionMatches c r) cs))"

definition ordered :: "OrderBy \<Rightarrow> Service list \<Rightarrow> Service list" where
  \<comment> \<open>Modelled from the spec: the absent query engine's sort by \<open>createdAt\<close>. Documents with
      equal \<open>createdAt\<close> stay in collection order: the key given is the only one compared.\<close>
  "ordered ob xs =
     (case orderBy_createdAt ob of
        Asc \<Rightarrow> sort_key createdAt xs
      | Desc \<Rightarrow> sort_key (\<lambda>r. - createdAt r) xs)"

definition prisma_service_findMany ::
  "Env \<Rightarrow> WhereClause \<Rightarrow> OrderBy \<Rightarrow> State \<Rightarrow> Service list Outcome" where
  \<comment> \<open>Modelled from the spec: \<open>prisma.service.findMany({ where, orderBy })\<close> of the absent
      generated client.\<close>
  "prisma_service_findMany env w ob st =
     (if \<not> reachable env then Throws
      else Returns (ordered ob (filter (whereMatches w) (services st))))"

definition prisma_service_findUnique :: "Env \<Rightarrow> string \<Rightarrow> State \<Rightarrow> Service option Outcome" where
  \<comment> \<open>Modelled from the spec: \<open>prisma.service.findUnique({ where: { id } })\<close> of the absent
      generated client; \<open>null\<close> (\<open>None\<close>) when no document has the identifier.\<close>
  "prisma_service_findUnique env i st =
     (if \<not> reachable env then Throws
      else Returns (find (\<lambda>r. id' r = i) (services st)))"

definition prisma_service_create :: "Env \<Rightarrow> ServiceData \<Rightarrow> State \<Rightarrow> Service Outcome \<times> State" where
  \<comment> \<open>Modelled from the spec: \<open>prisma.service.create({ data })\<close> of the absent generated client.
      The layer assigns the identifier and sets \<open>createdAt = updatedAt = now\<close>; an identifier
      already in use is rejected, so identifiers stay unique.\<close>
  "prisma_service_create env d st =
     (if \<not> reachable env \<or> generatedId env \<in> set (map id' (services st)) then (Throws, st)
      else
        (let r = \<lparr> name = name d, description = description d, price = price d,
                   isActive = isActive d, isFeatured = isFeatured d,
                   id' = generatedId env, createdAt = now env, updatedAt = now env \<rparr>
         in (Returns r, st\<lparr> services := services st @ [r] \<rparr>)))"

definition prisma_service_update ::
  "Env \<Rightarrow> string \<Rightarrow> ServiceData \<Rightarrow> State \<Rightarrow> Service Outcome \<times> State" where
  \<comment> \<open>Modelled from the spec: \<open>prisma.service.update({ where: { id }, data })\<close> of the absent
      generated client: replaces the five mutable fields and refreshes \<open>updatedAt\<close>; a
      nonexistent identifier is a failure.\<close>
  "prisma_service_update env i d st =
     (if \<not> reachable env then (Throws, st)
      else
        (case find (\<lambda>r. id' r = i) (services st) of
           None \<Rightarrow> (Throws, st)
         | Some r \<Rightarrow>
             (let r' = r\<lparr> name := name d, description := description d, price := price d,
                          isActive := isActive d, isFeatured := isFeatured d,
                          updatedAt := now env \<rparr>
              in (Returns r',
                  st\<lparr> services := map (\<lambda>x. if id' x = i then r' else x) (services st) \<rparr>))))"

definition prisma_service_delete :: "Env \<Rightarrow> string \<Rightarrow> State \<Rightarrow> Service Outcome \<times> State" where
  \<comment> \<open>Modelled from the spec: \<open>prisma.service.delete({ where: { id } })\<close> of the absent generated
      client: removes the document; a nonexistent identifier is a failure.\<close>
  "prisma_service_delete env i st =
     (if \<not> reachable env then (Throws, st)
      else
        (case find (\<lambda>r. id' r = i) (services st) of
           None \<Rightarrow> (Throws, st)
         | Some r \<Rightarrow> (Returns r, st\<lparr> services := filter (\<lambda>x. id' x \<noteq> i) (services st) \<rparr>)))"

definition revalidateTag :: "string \<Rightarrow> State \<Rightarrow> State" where
  "revalidateTag tag st = st\<lparr> revalidatedTags := revalidatedTags st @ [tag] \<rparr>"

definition revalidatePath :: "string \<Rightarrow> State \<Rightarrow> State" where
  "revalidatePath path st = st\<lparr> revalidatedPaths := revalidatedPaths st @ [path] \<rparr>"

section \<open>The server actions (\<open>src/actions/services.ts\<close>)\<close>

text \<open>
  What an action hands to its caller: nothing (\<open>undefined\<close>), \<open>null\<close>, an object
  \<open>{ error: message }\<close>, or a Service.
\<close>

datatype Returned = Undefined | Null | Error string | Found Service

definition serviceTag :: string where
  "serviceTag = ''services''"

definition formFields :: "FormData \<Rightarrow> ServiceData" where
  \<comment> \<open>The five constants both mutations read off the form. \<open>name\<close> and \<open>description\<close> are
      used only once the check has found them truthy.\<close>
  "formFields formData =
     \<lparr> name = the (formData_get formData ''name''),
       description = the (formData_get formData ''description''),
       price = parseFloat (toString (formData_get formData ''price'')),
       isActive = (formData_get formData ''isActive'' = Some ''true''),
       isFeatured = (formData_get formData ''isFeatured'' = Some ''true'') \<rparr>"

definition invalidForm :: "FormData \<Rightarrow> bool" where
  \<comment> \<open>\<open>!name || !description || isNaN(price)\<close>\<close>
  "invalidForm formData =
     (\<not> truthy (formData_get formData ''name'') \<or>
      \<not> truthy (formData_get formData ''description'') \<or>
      isNaN (parseFloat (toString (formData_get formData ''price''))))"

definition createService :: "Env \<Rightarrow> FormData \<Rightarrow> State \<Rightarrow> Returned \<times> State" where
  "createService env formData st =
     (if invalidForm formData
      then (Error ''All fields are required and price must be a valid number'', st)
      else
        (case prisma_service_create env (formFields formData) st of
           (Returns r, st') \<Rightarrow> (Undefined, revalidateTag serviceTag st')
         | (Throws, st') \<Rightarrow> (Error ''Failed to create service'', st')))"

definition whereClause :: "string option \<Rightarrow> FilterActive \<Rightarrow> WhereClause" where
  \<comment> \<open>The where clause \<open>getServices\<close> builds before it queries.\<close>
  "whereClause searchTerm filterIsActive =
     (let w0 = \<lparr> where_isActive = None, where_OR = None \<rparr>;
          w1 = (if FilterActive.isActive filterIsActive \<noteq> ''all''
                then w0\<lparr> where_isActive := Some (FilterActive.isActive filterIsActive = ''true'') \<rparr>
                else w0)
      in if truthy searchTerm \<and> trim (the searchTerm) \<noteq> []
         then w1\<lparr> where_OR := Some
                [\<lparr> cond_name = Some \<lparr> contains = the searchTerm, mode = Insensitive \<rparr>,
                   cond_description = None \<rparr>,
                 \<lparr> cond_name = None,
                   cond_description = Some \<lparr> contains = the searchTerm, mode = Insensitive \<rparr> \<rparr>] \<rparr>
         else w1)"

definition getServices :: "Env \<Rightarrow> string option \<Rightarrow> FilterActive \<Rightarrow> State \<Rightarrow> Service list" where
  "getServices env searchTerm filterIsActive st =
     (case prisma_service_findMany env (whereClause searchTerm filterIsActive)
             \<lparr> orderBy_createdAt = Desc \<rparr> st of
        Returns found \<Rightarrow> found
      | Throws \<Rightarrow> [])"

definition getService :: "Env \<Rightarrow> string \<Rightarrow> State \<Rightarrow> Returned" where
  "getService env i st =
     (case prisma_service_findUnique env i st of
        Returns None \<Rightarrow> Null
      | Returns (Some service) \<Rightarrow> Found service
      | Throws \<Rightarrow> Error ''Failed to get service'')"

definition updateService :: "Env \<Rightarrow> string \<Rightarrow> FormData \<Rightarrow> State \<Rightarrow> Returned \<times> State" where
  "updateService env i formData st =
     (if invalidForm formData
      then (Error ''All fields are required and price must be a valid number'', st)
      else
        (case prisma_service_update env i (formFields formData) st of
           (Returns r, st') \<Rightarrow> (Undefined, revalidateTag serviceTag st')
         | (Throws, st') \<Rightarrow> (Error ''Failed to update service'', st')))"

definition deleteService :: "Env \<Rightarrow> string \<Rightarrow> State \<Rightarrow> Returned \<times> State" where
  "deleteService env i st =
     (case prisma_service_delete env i st of
        (Returns r, st') \<Rightarrow>
          (Undefined, revalidatePath ''/dashboard/services'' (revalidateTag serviceTag st'))
      | (Throws, st') \<Rightarrow> (Error ''Failed to delete service'', st'))"

section \<open>The debounced filter component (\<open>service-filters.tsx\<close>)\<close>

text \<open>
  \<open>URLSearchParams\<close> is its list of entries. The component hands the router the path
  \<open>/dashboard/services\<close> with a query string; the model keeps the entries of that query string.
\<close>

type_synonym URLSearchParams = "(string \<times> string) list"

definition params_delete :: "string \<Rightarrow> URLSearchParams \<Rightarrow> URLSearchParams" where
  \<comment> \<open>\<open>params.delete(key)\<close>\<close>
  "params_delete key params = filter (\<lambda>(k, v). k \<noteq> key) params"

fun params_set :: "string \<Rightarrow> string \<Rightarrow> URLSearchParams \<Rightarrow> URLSearchParams" where
  \<comment> \<open>\<open>params.set(key, value)\<close>: the first entry under the key takes the value and the others
      go; a new entry is appended when there is none.\<close>
  "params_set key value [] = [(key, value)]"
| "params_set key value ((k, v) # params) =
     (if k = key then (key, value) # params_delete key params
      else (k, v) # params_set key value params)"

definition createQueryString :: "URLSearchParams \<Rightarrow> string \<Rightarrow> string \<Rightarrow> URLSearchParams" where
  "createQueryString searchParams key value =
     (if value = [] \<or> value = ''all'' then params_delete key searchParams
      else params_set key value searchParams)"

definition searchProp :: "URLSearchParams \<Rightarrow> string" where
  \<comment> \<open>The page passes \<open>searchTerm={search || ""}\<close>.\<close>
  "searchProp params = (case map_of params ''search'' of None \<Rightarrow> [] | Some s \<Rightarrow> s)"

text \<open>
  A pending \<open>setTimeout\<close>: when it is due (milliseconds), and the values its callback closes
  over.
\<close>

record Timeout =
  due :: nat
  closed_localSearchTerm :: string
  closed_searchTerm :: string
  closed_searchParams :: URLSearchParams

text \<open>
  The component between two events: its prop \<open>searchTerm\<close>, what \<open>useSearchParams\<close> gives, its
  state \<open>localSearchTerm\<close>, the timeout of the debounce effect, and every \<open>router.push\<close> so far
  with the time it was made. An effect runs after the first render and after every render in
  which one of its dependencies has changed, its previous cleanup first; the debounce effect
  depends on \<open>localSearchTerm\<close>, \<open>searchTerm\<close> and, through \<open>createQueryString\<close>, on
  \<open>searchParams\<close>. The flag \<open>isPending\<close> only disables the inputs while a push is under way and
  is not part of the state kept here.
\<close>

record ServiceFilters =
  searchTerm :: string
  searchParams :: URLSearchParams
  localSearchTerm :: string
  timeoutId :: "Timeout option"
  pushed :: "(nat \<times> URLSearchParams) list"

definition debounceEffect :: "nat \<Rightarrow> ServiceFilters \<Rightarrow> ServiceFilters" where
  \<comment> \<open>The debounce effect when a dependency has changed, at time \<open>t\<close>: the cleanup clears the
      timeout of the previous run, the body sets a new one 1500 ms ahead.\<close>
  "debounceEffect t c =
     c\<lparr> timeoutId := Some \<lparr> due = t + 1500,
                            closed_localSearchTerm = localSearchTerm c,
                            closed_searchTerm = searchTerm c,
                            closed_searchParams = searchParams c \<rparr> \<rparr>"

definition timeoutCallback :: "Timeout \<Rightarrow> ServiceFilters \<Rightarrow> ServiceFilters" where
  \<comment> \<open>The callback given to \<open>setTimeout\<close>, run when the timeout is due.\<close>
  "timeoutCallback p c =
     (if closed_localSearchTerm p \<noteq> closed_searchTerm p
      then c\<lparr> timeoutId := None,
              pushed := pushed c @
                [(due p, createQueryString (closed_searchParams p) ''search''
                           (closed_localSearchTerm p))] \<rparr>
      else c\<lparr> timeoutId := None \<rparr>)"

definition setLocalSearchTerm :: "nat \<Rightarrow> string \<Rightarrow> ServiceFilters \<Rightarrow> ServiceFilters" where
  \<comment> \<open>A state setter given the current value changes nothing and renders nothing; given another
      value it renders again, and the debounce effect runs since \<open>localSearchTerm\<close> changed.\<close>
  "setLocalSearchTerm t value c =
     (if value = localSearchTerm c then c
      else debounceEffect t (c\<lparr> localSearchTerm := value \<rparr>))"

definition handleSearchChange :: "nat \<Rightarrow> string \<Rightarrow> ServiceFilters \<Rightarrow> ServiceFilters" where
  "handleSearchChange t value c = setLocalSearchTerm t value c"

definition handleStatusChange :: "nat \<Rightarrow> string \<Rightarrow> ServiceFilters \<Rightarrow> ServiceFilters" where
  "handleStatusChange t value c =
     c\<lparr> pushed := pushed c @ [(t, createQueryString (searchParams c) ''status'' value)] \<rparr>"

definition mount :: "nat \<Rightarrow> URLSearchParams \<Rightarrow> ServiceFilters" where
  \<comment> \<open>The first render at time \<open>t\<close> under the given query: the state starts as the prop, the
      debounce effect runs once, and the second effect sets the state to the value it has.\<close>
  "mount t params =
     setLocalSearchTerm t (searchProp params)
       (debounceEffect t
          \<lparr> searchTerm = searchProp params, searchParams = params,
            localSearchTerm = searchProp params, timeoutId = None, pushed = [] \<rparr>)"

definition navigated :: "nat \<Rightarrow> URLSearchParams \<Rightarrow> ServiceFilters \<Rightarrow> ServiceFilters" where
  \<comment> \<open>The query has changed (a push has landed, or the user went back): the component renders
      with the new prop and parameters, the debounce effect runs, and when the prop changed the
      second effect copies it into the state.\<close>
  "navigated t params c =
     (if params = searchParams c then c
      else
        (let c' = debounceEffect t (c\<lparr> searchTerm := searchProp params, searchParams := params \<rparr>)
         in if searchProp params \<noteq> searchTerm c then setLocalSearchTerm t (searchProp params) c'
            else c'))"

text \<open>
  Time passes between events: \<open>elapse t\<close> runs the callback of a timeout that is due by \<open>t\<close>;
  the callback runs at the time the timeout is due. An event is handled at its time, after
  whatever was due by then.
\<close>

definition elapse :: "nat \<Rightarrow> ServiceFilters \<Rightarrow> ServiceFilters" where
  "elapse t c =
     (case timeoutId c of
        None \<Rightarrow> c
      | Some p \<Rightarrow> if due p \<le> t then timeoutCallback p c else c)"

datatype Event = Typed string | StatusSelected string | Navigated URLSearchParams

fun handle :: "nat \<Rightarrow> Event \<Rightarrow> ServiceFilters \<Rightarrow> ServiceFilters" where
  "handle t (Typed value) c = handleSearchChange t value c"
| "handle t (StatusSelected value) c = handleStatusChange t value c"
| "handle t (Navigated params) c = navigated t params c"

fun run :: "ServiceFilters \<Rightarrow> (nat \<times> Event) list \<Rightarrow> ServiceFilters" where
  "run c [] = c"
| "run c ((t, e) # events) = run (handle t e (elapse t c)) events"

definition closuresCurrent :: "ServiceFilters \<Rightarrow> bool" where
  \<comment> \<open>What a pending callback closes over is what the component holds now.\<close>
  "closuresCurrent c =
     (case timeoutId c of
        None \<Rightarrow> True
      | Some p \<Rightarrow> closed_localSearchTerm p = localSearchTerm c \<and>
                 closed_searchTerm p = searchTerm c \<and>
                 closed_searchParams p = searchParams c)"

section \<open>Concrete data\<close>

definition online :: Env where
  "online = \<lparr> reachable = True, now = 3000, generatedId = ''65f0c0ffee0000000000000c'' \<rparr>"

definition offline :: Env where
  "offline = \<lparr> reachable = False, now = 3000, generatedId = ''65f0c0ffee0000000000000c'' \<rparr>"

definition webDesign :: Service where
  "webDesign = \<lparr> name = ''Web design'', description = ''Landing pages'', price = Finite 1500,
                  isActive = True, isFeatured = False,
                  id' = ''65f0c0ffee0000000000000a'', createdAt = 1000, updatedAt = 1000 \<rparr>"

definition hosting :: Service where
  "hosting = \<lparr> name = ''Hosting'', description = ''Keeps your web site up'', price = Finite 20,
                isActive = False, isFeatured = True,
                id' = ''65f0c0ffee0000000000000b'', createdAt = 1000, updatedAt = 2000 \<rparr>"

definition noServices :: State where
  "noServices = \<lparr> services = [], revalidatedTags = [], revalidatedPaths = [] \<rparr>"

definition twoServices :: State where
  "twoServices = \<lparr> services = [webDesign, hosting], revalidatedTags = [], revalidatedPaths = [] \<rparr>"

definition allOf :: FilterActive where
  "allOf = \<lparr> FilterActive.isActive = ''all'' \<rparr>"

definition createdAtDescThenIdDesc :: "Service \<Rightarrow> Service \<Rightarrow> bool" where
  \<comment> \<open>The order the specification words: \<open>a\<close> may stand before \<open>b\<close> when it is newer, or as
      new with an identifier at least as large.\<close>
  "createdAtDescThenIdDesc a b =
     (createdAt b < createdAt a \<or> (createdAt a = createdAt b \<and> id' b \<le> id' a))"

definition createdAtDesc :: "Service \<Rightarrow> Service \<Rightarrow> bool" where
  \<comment> \<open>\<open>a\<close> may stand before \<open>b\<close> when it is at least as new.\<close>
  "createdAtDesc a b = (createdAt b \<le> createdAt a)"

definition fullForm :: FormData where
  "fullForm = [(''name'', ''Consulting''), (''description'', ''1hr session''), (''price'', ''99.50''),
               (''isActive'', ''true''), (''isFeatured'', ''false'')]"

definition bareForm :: FormData where
  \<comment> \<open>No \<open>isActive\<close> and no \<open>isFeatured\<close> entry.\<close>
  "bareForm = [(''name'', ''Consulting''), (''description'', ''1hr session''), (''price'', ''99.50'')]"

definition negativePriceForm :: FormData where
  "negativePriceForm = [(''name'', ''Consulting''), (''description'', ''1hr session''), (''price'', ''-5''),
                        (''isActive'', ''true''), (''isFeatured'', ''false'')]"

definition emptyNameForm :: FormData where
  "emptyNameForm = [(''name'', ''''), (''description'', ''x''), (''price'', ''10'')]"

definition validationError :: Returned where
  "validationError = Error ''All fields are required and price must be a valid number''"

section \<open>Facts about strings\<close>

lemma startsWith_iff: "startsWith s p \<longleftrightarrow> (\<exists>q. s = p @ q)"
  unfolding startsWith_def
  by (metis append_eq_conv_conj append_take_drop_id)

lemma hasSubstring_iff: "hasSubstring hay needle \<longleftrightarrow> (\<exists>p q. hay = p @ needle @ q)"
proof (induction hay)
  case Nil
  then show ?case by auto
next
  case (Cons c cs)
  show ?case
  proof
    assume "hasSubstring (c # cs) needle"
    then consider "startsWith (c # cs) needle" | "hasSubstring cs needle" by auto
    then show "\<exists>p q. c # cs = p @ needle @ q"
    proof cases
      case 1
      then obtain q where "c # cs = needle @ q" by (auto simp: startsWith_iff)
      then have "c # cs = [] @ needle @ q" by simp
      then show ?thesis by blast
    next
      case 2
      then obtain p q where "cs = p @ needle @ q" using Cons.IH by auto
      then have "c # cs = (c # p) @ needle @ q" by simp
      then show ?thesis by blast
    qed
  next
    assume "\<exists>p q. c # cs = p @ needle @ q"
    then obtain p q where pq: "c # cs = p @ needle @ q" by auto
    show "hasSubstring (c # cs) needle"
    proof (cases p)
      case Nil
      with pq have "startsWith (c # cs) needle" by (auto simp: startsWith_iff)
      then show ?thesis by simp
    next
      case (Cons a p')
      with pq have "cs = p' @ needle @ q" by simp
      then have "hasSubstring cs needle" using Cons.IH by blast
      then show ?thesis by simp
    qed
  qed
qed

lemma dropWhile_all_iff: "(\<forall>x\<in>set (dropWhile P xs). P x) \<longleftrightarrow> (\<forall>x\<in>set xs. P x)"
proof
  assume a: "\<forall>x\<in>set (dropWhile P xs). P x"
  have "dropWhile P xs = []"
  proof (rule ccontr)
    assume ne: "dropWhile P xs \<noteq> []"
    then have "\<not> P (hd (dropWhile P xs))" by (rule hd_dropWhile)
    moreover have "hd (dropWhile P xs) \<in> set (dropWhile P xs)" using ne by simp
    ultimately show False using a by blast
  qed
  then show "\<forall>x\<in>set xs. P x" by simp
next
  assume "\<forall>x\<in>set xs. P x"
  then show "\<forall>x\<in>set (dropWhile P xs). P x" by (auto dest: set_dropWhileD)
qed

lemma trim_empty_iff: "trim s = [] \<longleftrightarrow> (\<forall>c\<in>set s. isWhiteSpace c)"
  unfolding trim_def by (simp add: dropWhile_all_iff)

section \<open>Reading the collection\<close>

lemma set_ordered: "set (ordered ob xs) = set xs"
  by (simp add: ordered_def split: SortOrder.split)

lemma getServices_mem:
  assumes "reachable env"
  shows "r \<in> set (getServices env s f st) \<longleftrightarrow>
         r \<in> set (services st) \<and> whereMatches (whereClause s f) r"
  using assms by (simp add: getServices_def prisma_service_findMany_def set_ordered)

lemma whereMatches_whereClause:
  "whereMatches (whereClause s f) r \<longleftrightarrow>
     (FilterActive.isActive f = ''all'' \<or> isActive r = (FilterActive.isActive f = ''true'')) \<and>
     (s = None \<or> (\<exists>t. s = Some t \<and> (trim t = [] \<or>
         hasSubstring (map toLower (name r)) (map toLower t) \<or>
         hasSubstring (map toLower (description r)) (map toLower t))))"
  by (cases s)
    (auto simp: whereMatches_def whereClause_def conditionMatches_def stringFilterMatches_def
      Let_def trim_empty_iff)

text \<open>
  C1. When the query succeeds and the search term puts no constraint on the text (it is absent,
  empty or all white space), a stored record is listed under a status filter \<open>f\<close> out of
  \<open>all\<close>, \<open>true\<close>, \<open>false\<close> exactly when \<open>f\<close> is \<open>all\<close> or the record's \<open>isActive\<close> is the
  boolean \<open>f\<close> spells.
\<close>

theorem getServices_status_filter:
  assumes "reachable env" and "r \<in> set (services st)"
    and "f \<in> {''all'', ''true'', ''false''}"
    and "s = None \<or> (\<exists>t. s = Some t \<and> (\<forall>c\<in>set t. isWhiteSpace c))"
  shows "r \<in> set (getServices env s \<lparr> FilterActive.isActive = f \<rparr> st) \<longleftrightarrow>
         (f = ''all'' \<or> isActive r = (f = ''true''))"
  using assms by (auto simp: getServices_mem whereMatches_whereClause trim_empty_iff)

theorem getServices_status_filter_witness:
  "hosting \<in> set (getServices online None \<lparr> FilterActive.isActive = ''false'' \<rparr> twoServices) \<and>
   hosting \<notin> set (getServices online None \<lparr> FilterActive.isActive = ''true'' \<rparr> twoServices) \<and>
   hosting \<in> set (getServices online (Some '' '') \<lparr> FilterActive.isActive = ''all'' \<rparr> twoServices)"
  using getServices_status_filter [of online hosting twoServices "''false''" None]
    getServices_status_filter [of online hosting twoServices "''true''" None]
    getServices_status_filter [of online hosting twoServices "''all''" "Some '' ''"]
  by (simp add: online_def twoServices_def hosting_def isWhiteSpace_def)

text \<open>
  C2. When the query succeeds, a stored record is listed under the status filter \<open>all\<close> and a
  search term exactly when the term is absent, empty or all white space, or the record's name
  contains it, or the record's description contains it, both without regard to case. Under any
  status filter the record is listed exactly when the status filter alone lists it and the
  search term alone lists it: the two constraints combine with AND, the two fields with OR.
\<close>

theorem getServices_search:
  assumes "reachable env" and "r \<in> set (services st)"
  shows "(r \<in> set (getServices env s \<lparr> FilterActive.isActive = ''all'' \<rparr> st) \<longleftrightarrow>
            (s = None \<or> (\<exists>t. s = Some t \<and>
               ((\<forall>c\<in>set t. isWhiteSpace c) \<or>
                (\<exists>p q. map toLower (name r) = p @ map toLower t @ q) \<or>
                (\<exists>p q. map toLower (description r) = p @ map toLower t @ q))))) \<and>
         (r \<in> set (getServices env s f st) \<longleftrightarrow>
            r \<in> set (getServices env None f st) \<and>
            r \<in> set (getServices env s \<lparr> FilterActive.isActive = ''all'' \<rparr> st))"
  using assms
  by (simp add: getServices_mem whereMatches_whereClause trim_empty_iff hasSubstring_iff)

theorem getServices_search_witness:
  "(hosting \<in> set (getServices online (Some ''WEB'') \<lparr> FilterActive.isActive = ''all'' \<rparr> twoServices) \<longleftrightarrow>
      (\<exists>p q. map toLower (name hosting) = p @ ''web'' @ q) \<or>
      (\<exists>p q. map toLower (description hosting) = p @ ''web'' @ q)) \<and>
   (hosting \<in> set (getServices online (Some ''WEB'') \<lparr> FilterActive.isActive = ''true'' \<rparr> twoServices) \<longleftrightarrow>
      hosting \<in> set (getServices online None \<lparr> FilterActive.isActive = ''true'' \<rparr> twoServices) \<and>
      hosting \<in> set (getServices online (Some ''WEB'') \<lparr> FilterActive.isActive = ''all'' \<rparr> twoServices))"
  using getServices_search [of online hosting twoServices "Some ''WEB''" "\<lparr> FilterActive.isActive = ''true'' \<rparr>"]
  by (simp add: online_def twoServices_def isWhiteSpace_def toLower_def)

text \<open>
  C10. A search term with a character that is not white space reaches the query as it was
  given: both field filters carry the untrimmed term, and when the query succeeds a stored
  record is listed under the status filter \<open>all\<close> exactly when its name or its description
  contains that untrimmed term, without regard to case.
\<close>

theorem getServices_untrimmed_term:
  assumes "\<exists>c\<in>set t. \<not> isWhiteSpace c"
  shows "where_OR (whereClause (Some t) f) =
           Some [\<lparr> cond_name = Some \<lparr> contains = t, mode = Insensitive \<rparr>,
                   cond_description = None \<rparr>,
                 \<lparr> cond_name = None,
                   cond_description = Some \<lparr> contains = t, mode = Insensitive \<rparr> \<rparr>] \<and>
         (reachable env \<and> r \<in> set (services st) \<longrightarrow>
            (r \<in> set (getServices env (Some t) \<lparr> FilterActive.isActive = ''all'' \<rparr> st) \<longleftrightarrow>
               (\<exists>p q. map toLower (name r) = p @ map toLower t @ q) \<or>
               (\<exists>p q. map toLower (description r) = p @ map toLower t @ q)))"
proof -
  from assms have nonblank: "trim t \<noteq> []" by (simp add: trim_empty_iff)
  then have "t \<noteq> []" by (auto simp: trim_def)
  with nonblank have "where_OR (whereClause (Some t) f) =
           Some [\<lparr> cond_name = Some \<lparr> contains = t, mode = Insensitive \<rparr>,
                   cond_description = None \<rparr>,
                 \<lparr> cond_name = None,
                   cond_description = Some \<lparr> contains = t, mode = Insensitive \<rparr> \<rparr>]"
    by (simp add: whereClause_def Let_def)
  moreover have "reachable env \<and> r \<in> set (services st) \<longrightarrow>
            (r \<in> set (getServices env (Some t) \<lparr> FilterActive.isActive = ''all'' \<rparr> st) \<longleftrightarrow>
               (\<exists>p q. map toLower (name r) = p @ map toLower t @ q) \<or>
               (\<exists>p q. map toLower (description r) = p @ map toLower t @ q))"
    using nonblank by (simp add: getServices_mem whereMatches_whereClause hasSubstring_iff)
  ultimately show ?thesis by simp
qed

theorem getServices_untrimmed_term_witness:
  "(hosting \<in> set (getServices online (Some '' web '') \<lparr> FilterActive.isActive = ''all'' \<rparr> twoServices) \<longleftrightarrow>
      (\<exists>p q. ''hosting'' = p @ '' web '' @ q) \<or>
      (\<exists>p q. ''keeps your web site up'' = p @ '' web '' @ q)) \<and>
   (webDesign \<in> set (getServices online (Some '' web '') \<lparr> FilterActive.isActive = ''all'' \<rparr> twoServices) \<longleftrightarrow>
      (\<exists>p q. ''web design'' = p @ '' web '' @ q) \<or>
      (\<exists>p q. ''landing pages'' = p @ '' web '' @ q))"
  using getServices_untrimmed_term [of "'' web ''" allOf online hosting twoServices]
    getServices_untrimmed_term [of "'' web ''" allOf online webDesign twoServices]
  by (simp add: online_def twoServices_def hosting_def webDesign_def isWhiteSpace_def toLower_def)

lemma getServices_untrimmed_example:
  "getServices online (Some '' web '') allOf twoServices = [hosting] \<and>
   getServices online (Some ''web'') allOf twoServices = [webDesign, hosting]"
  by (simp add: getServices_def prisma_service_findMany_def online_def twoServices_def
      whereClause_def whereMatches_def conditionMatches_def stringFilterMatches_def
      ordered_def webDesign_def hosting_def allOf_def trim_def isWhiteSpace_def
      toLower_def startsWith_def)

section \<open>The order of the list\<close>

lemma ordered_Desc_sorted: "sorted_wrt createdAtDesc (ordered \<lparr> orderBy_createdAt = Desc \<rparr> xs)"
proof -
  have "sorted (map (\<lambda>r. - createdAt r) (sort_key (\<lambda>r. - createdAt r) xs))"
    by (rule sorted_sort_key)
  moreover have "createdAtDesc = (\<lambda>a b. createdAt b \<le> createdAt a)"
    by (simp add: fun_eq_iff createdAtDesc_def)
  ultimately show ?thesis
    by (simp add: ordered_def sorted_map)
qed

text \<open>
  C3, as stated, fails: two stored records created at the same instant come back in collection
  order, the smaller identifier first, because the query orders by \<open>createdAt\<close> alone.
\<close>

theorem getServices_id_tiebreak_counterexample:
  "getServices online None allOf twoServices = [webDesign, hosting] \<and>
   \<not> sorted_wrt createdAtDescThenIdDesc (getServices online None allOf twoServices)"
  by (simp add: getServices_def prisma_service_findMany_def online_def twoServices_def
      whereClause_def whereMatches_def ordered_def webDesign_def hosting_def allOf_def
      createdAtDescThenIdDesc_def)

text \<open>
  C3, amended. For every search term and status filter, the list \<open>getServices\<close> returns is
  sorted by \<open>createdAt\<close> descending: no record stands before a newer one.
\<close>

theorem getServices_sorted_createdAt_desc:
  "sorted_wrt createdAtDesc (getServices env s f st)"
  by (simp add: getServices_def prisma_service_findMany_def ordered_Desc_sorted)

theorem getServices_sorted_createdAt_desc_witness:
  "sorted_wrt createdAtDesc (getServices online (Some ''web'') allOf twoServices)"
  using getServices_sorted_createdAt_desc [of online "Some ''web''" allOf twoServices] by simp

text \<open>
  C4. Whenever the query of \<open>getServices\<close> throws, \<open>getServices\<close> returns the empty list; it
  has no other way out, neither an error object nor an exception.
\<close>

theorem getServices_failure_empty:
  assumes "prisma_service_findMany env (whereClause s f) \<lparr> orderBy_createdAt = Desc \<rparr> st = Throws"
  shows "getServices env s f st = []"
  using assms by (simp add: getServices_def)

theorem getServices_failure_empty_witness:
  "getServices offline (Some ''web'') allOf twoServices = []"
  using getServices_failure_empty [of offline "Some ''web''" allOf twoServices]
  by (simp add: prisma_service_findMany_def offline_def)

section \<open>Writing to the collection\<close>

lemmas parseFloat_defs =
  parseFloat_def trimStart_def isWhiteSpace_def startsWith_def strUnsignedDecimalLiteral_def
  isDigit_def digitsValue_def exponentPart_def toNumber_def Let_def

lemma parseFloat_examples:
  "parseFloat ''-5'' = Finite (- 5)"
  "parseFloat ''99.50'' = Finite (199 / 2)"
  "parseFloat ''10'' = Finite 10"
  "parseFloat ''null'' = NaN"
  by (simp_all add: parseFloat_defs)

lemma invalidForm_iff:
  "invalidForm fd \<longleftrightarrow>
     formData_get fd ''name'' = None \<or> formData_get fd ''name'' = Some [] \<or>
     formData_get fd ''description'' = None \<or> formData_get fd ''description'' = Some [] \<or>
     parseFloat (toString (formData_get fd ''price'')) = NaN"
  by (cases "formData_get fd ''name''"; cases "formData_get fd ''description''")
    (simp_all add: invalidForm_def isNaN_def)

lemma createService_invalid:
  "invalidForm fd \<Longrightarrow> createService env fd st = (validationError, st)"
  by (simp add: createService_def validationError_def)

lemma createService_valid:
  "\<not> invalidForm fd \<Longrightarrow> fst (createService env fd st) \<noteq> validationError"
  by (simp add: createService_def validationError_def split: prod.splits Outcome.splits)

lemma updateService_invalid:
  "invalidForm fd \<Longrightarrow> updateService env i fd st = (validationError, st)"
  by (simp add: updateService_def validationError_def)

lemma updateService_valid:
  "\<not> invalidForm fd \<Longrightarrow> fst (updateService env i fd st) \<noteq> validationError"
  by (simp add: updateService_def validationError_def split: prod.splits Outcome.splits)

lemma createService_written:
  assumes "\<not> invalidForm fd" and "reachable env"
    and "generatedId env \<notin> set (map id' (services st))"
  shows "createService env fd st =
           (Undefined,
            st\<lparr> services := services st @
                   [\<lparr> name = name (formFields fd), description = description (formFields fd),
                      price = price (formFields fd), isActive = isActive (formFields fd),
                      isFeatured = isFeatured (formFields fd), id' = generatedId env,
                      createdAt = now env, updatedAt = now env \<rparr>],
                revalidatedTags := revalidatedTags st @ [serviceTag] \<rparr>)"
  using assms by (simp add: createService_def prisma_service_create_def revalidateTag_def Let_def)

lemma createService_Undefined_iff:
  "fst (createService env fd st) = Undefined \<longleftrightarrow>
     \<not> invalidForm fd \<and> reachable env \<and> generatedId env \<notin> set (map id' (services st))"
  by (auto simp: createService_def prisma_service_create_def Let_def)

lemma createService_fullForm:
  "createService online fullForm noServices =
     (Undefined,
      \<lparr> services = [\<lparr> name = ''Consulting'', description = ''1hr session'',
                       price = Finite (199 / 2), isActive = True, isFeatured = False,
                       id' = ''65f0c0ffee0000000000000c'', createdAt = 3000, updatedAt = 3000 \<rparr>],
        revalidatedTags = [''services''], revalidatedPaths = [] \<rparr>)"
  by (simp add: createService_def invalidForm_def formFields_def formData_get_def fullForm_def
      isNaN_def parseFloat_examples prisma_service_create_def online_def noServices_def
      revalidateTag_def serviceTag_def Let_def)

lemma createService_bareForm:
  "createService online bareForm noServices =
     (Undefined,
      \<lparr> services = [\<lparr> name = ''Consulting'', description = ''1hr session'',
                       price = Finite (199 / 2), isActive = False, isFeatured = False,
                       id' = ''65f0c0ffee0000000000000c'', createdAt = 3000, updatedAt = 3000 \<rparr>],
        revalidatedTags = [''services''], revalidatedPaths = [] \<rparr>)"
  by (simp add: createService_def invalidForm_def formFields_def formData_get_def bareForm_def
      isNaN_def parseFloat_examples prisma_service_create_def online_def noServices_def
      revalidateTag_def serviceTag_def Let_def)

lemma bareForm_flags:
  "formData_get bareForm ''isActive'' = None"
  "formData_get bareForm ''isFeatured'' = None"
  by (simp_all add: formData_get_def bareForm_def)

text \<open>
  C5, as stated, fails: a form whose price is the text \<open>-5\<close> parses to the negative number
  \<open>-5\<close>, passes the check of \<open>createService\<close>, and is written.
\<close>

theorem validation_negative_price_counterexample:
  "parseFloat ''-5'' = Finite (- 5) \<and>
   createService online negativePriceForm noServices =
     (Undefined,
      \<lparr> services = [\<lparr> name = ''Consulting'', description = ''1hr session'',
                       price = Finite (- 5), isActive = True, isFeatured = False,
                       id' = ''65f0c0ffee0000000000000c'', createdAt = 3000, updatedAt = 3000 \<rparr>],
        revalidatedTags = [''services''], revalidatedPaths = [] \<rparr>)"
  by (simp add: createService_def invalidForm_def formFields_def formData_get_def
      negativePriceForm_def isNaN_def parseFloat_examples prisma_service_create_def online_def
      noServices_def revalidateTag_def serviceTag_def Let_def)

text \<open>
  C5, amended. \<open>createService\<close> and \<open>updateService\<close> return the validation error, and leave
  the collection and the caches as they were, whenever the name is absent or empty, the
  description is absent or empty, or \<open>parseFloat\<close> of the price text is \<open>NaN\<close>; in all other
  cases they do not return the validation error.
\<close>

theorem validation_error_iff:
  "(fst (createService env fd st) = validationError \<longleftrightarrow>
      formData_get fd ''name'' = None \<or> formData_get fd ''name'' = Some [] \<or>
      formData_get fd ''description'' = None \<or> formData_get fd ''description'' = Some [] \<or>
      parseFloat (toString (formData_get fd ''price'')) = NaN) \<and>
   (fst (createService env fd st) = validationError \<longrightarrow> snd (createService env fd st) = st) \<and>
   (fst (updateService env i fd st) = validationError \<longleftrightarrow>
      formData_get fd ''name'' = None \<or> formData_get fd ''name'' = Some [] \<or>
      formData_get fd ''description'' = None \<or> formData_get fd ''description'' = Some [] \<or>
      parseFloat (toString (formData_get fd ''price'')) = NaN) \<and>
   (fst (updateService env i fd st) = validationError \<longrightarrow> snd (updateService env i fd st) = st)"
proof (cases "invalidForm fd")
  case True
  then show ?thesis
    using createService_invalid [OF True, of env st] updateService_invalid [OF True, of env i st]
    by (simp add: invalidForm_iff)
next
  case False
  then show ?thesis
    using createService_valid [OF False, of env st] updateService_valid [OF False, of env i st]
    by (simp add: invalidForm_iff)
qed

theorem validation_error_iff_witness:
  "createService online emptyNameForm twoServices = (validationError, twoServices) \<and>
   updateService online (id' hosting) emptyNameForm twoServices = (validationError, twoServices) \<and>
   fst (createService online negativePriceForm twoServices) \<noteq> validationError"
  using validation_error_iff [of online emptyNameForm twoServices "id' hosting"]
    validation_error_iff [of online negativePriceForm twoServices "id' hosting"]
  by (simp add: prod_eq_iff formData_get_def emptyNameForm_def negativePriceForm_def
      parseFloat_examples)

text \<open>
  C6, as stated, fails: a valid form with no \<open>isActive\<close> entry creates a record whose
  \<open>isActive\<close> is false.
\<close>

theorem create_isActive_default_counterexample:
  "formData_get bareForm ''isActive'' = None \<and>
   fst (createService online bareForm noServices) = Undefined \<and>
   map isActive (services (snd (createService online bareForm noServices))) = [False]"
  by (simp add: createService_bareForm bareForm_flags)

text \<open>
  C6, amended. Every create request that succeeds appends one record, whose \<open>isActive\<close> is true
  exactly when the form's \<open>isActive\<close> entry is the text \<open>true\<close> and whose \<open>isFeatured\<close> is
  true exactly when the form's \<open>isFeatured\<close> entry is the text \<open>true\<close>: with the entry
  absent or unparseable the flag is false.
\<close>

theorem create_flags_from_form:
  assumes "fst (createService env fd st) = Undefined"
  shows "\<exists>r. services (snd (createService env fd st)) = services st @ [r] \<and>
              isActive r = (formData_get fd ''isActive'' = Some ''true'') \<and>
              isFeatured r = (formData_get fd ''isFeatured'' = Some ''true'')"
proof -
  from assms have ok: "\<not> invalidForm fd" "reachable env"
    "generatedId env \<notin> set (map id' (services st))"
    by (simp_all add: createService_Undefined_iff)
  show ?thesis
    by (simp add: createService_written [OF ok] formFields_def)
qed

theorem create_flags_from_form_witness:
  "\<exists>r. services (snd (createService online bareForm noServices)) = services noServices @ [r] \<and>
        isActive r = False \<and> isFeatured r = False"
  using create_flags_from_form [of online bareForm noServices]
  by (simp add: createService_bareForm bareForm_flags)

lemma find_append_new:
  assumes "i \<notin> set (map id' xs)" and "id' r = i"
  shows "find (\<lambda>x. id' x = i) (xs @ [r]) = Some r"
  using assms by (induction xs) auto

lemma find_id_None_iff: "find (\<lambda>r. id' r = i) xs = None \<longleftrightarrow> i \<notin> id' ` set xs"
  by (auto simp: find_None_iff)

text \<open>
  C7, as stated, fails: on a valid form whose write succeeds, \<open>createService\<close> returns
  \<open>undefined\<close>, not the created record.
\<close>

theorem create_returns_record_counterexample:
  "createService online fullForm noServices =
     (Undefined,
      \<lparr> services = [\<lparr> name = ''Consulting'', description = ''1hr session'',
                       price = Finite (199 / 2), isActive = True, isFeatured = False,
                       id' = ''65f0c0ffee0000000000000c'', createdAt = 3000, updatedAt = 3000 \<rparr>],
        revalidatedTags = [''services''], revalidatedPaths = [] \<rparr>)"
  by (rule createService_fullForm)

text \<open>
  C7, amended. On every valid form whose write succeeds, \<open>createService\<close> returns \<open>undefined\<close>;
  \<open>getService\<close> of the identifier the persistence layer assigned, when its lookup succeeds,
  then yields a record whose five mutable fields are the form's entries after coercion and
  whose \<open>createdAt\<close> equals its \<open>updatedAt\<close>.
\<close>

theorem create_then_getService:
  assumes valid: "\<not> invalidForm fd"
    and written: "fst (prisma_service_create env (formFields fd) st) \<noteq> Throws"
    and lookup: "reachable env'"
  shows "fst (createService env fd st) = Undefined \<and>
         (\<exists>n d. formData_get fd ''name'' = Some n \<and> formData_get fd ''description'' = Some d \<and>
            getService env' (generatedId env) (snd (createService env fd st)) =
              Found \<lparr> name = n, description = d,
                      price = parseFloat (toString (formData_get fd ''price'')),
                      isActive = (formData_get fd ''isActive'' = Some ''true''),
                      isFeatured = (formData_get fd ''isFeatured'' = Some ''true''),
                      id' = generatedId env, createdAt = now env, updatedAt = now env \<rparr>)"
proof -
  from written have ok: "reachable env" "generatedId env \<notin> set (map id' (services st))"
    by (auto simp: prisma_service_create_def split: if_splits)
  from valid obtain n d where nd:
    "formData_get fd ''name'' = Some n" "formData_get fd ''description'' = Some d"
    by (auto simp: invalidForm_iff)
  have "getService env' (generatedId env) (snd (createService env fd st)) =
          Found \<lparr> name = n, description = d,
                  price = parseFloat (toString (formData_get fd ''price'')),
                  isActive = (formData_get fd ''isActive'' = Some ''true''),
                  isFeatured = (formData_get fd ''isFeatured'' = Some ''true''),
                  id' = generatedId env, createdAt = now env, updatedAt = now env \<rparr>"
    using lookup ok(2) nd
    by (simp add: createService_written [OF valid ok] getService_def
        prisma_service_findUnique_def find_append_new formFields_def)
  with nd show ?thesis
    by (simp add: createService_written [OF valid ok])
qed

theorem create_then_getService_witness:
  "fst (createService online fullForm noServices) = Undefined \<and>
   getService online ''65f0c0ffee0000000000000c'' (snd (createService online fullForm noServices)) =
     Found \<lparr> name = ''Consulting'', description = ''1hr session'', price = Finite (199 / 2),
             isActive = True, isFeatured = False,
             id' = ''65f0c0ffee0000000000000c'', createdAt = 3000, updatedAt = 3000 \<rparr>"
proof -
  have valid: "\<not> invalidForm fullForm"
    by (simp add: invalidForm_def formData_get_def fullForm_def isNaN_def parseFloat_examples)
  have written: "fst (prisma_service_create online (formFields fullForm) noServices) \<noteq> Throws"
    by (simp add: prisma_service_create_def online_def noServices_def Let_def)
  have lookup: "reachable online" by (simp add: online_def)
  have entries: "formData_get fullForm ''name'' = Some ''Consulting''"
    "formData_get fullForm ''description'' = Some ''1hr session''"
    "formData_get fullForm ''price'' = Some ''99.50''"
    "formData_get fullForm ''isActive'' = Some ''true''"
    "formData_get fullForm ''isFeatured'' = Some ''false''"
    by (simp_all add: formData_get_def fullForm_def)
  have env: "generatedId online = ''65f0c0ffee0000000000000c''" "now online = 3000"
    by (simp_all add: online_def)
  show ?thesis
    using create_then_getService [OF valid written lookup]
    by (simp add: entries env parseFloat_examples)
qed

text \<open>
  C8. \<open>deleteService\<close> on an identifier no stored record has returns the failure object and
  leaves everything as it was; and after a \<open>deleteService\<close> that returned without a failure,
  a second one on the same identifier returns the failure object.
\<close>

theorem delete_nonexistent_fails:
  "(i \<notin> id' ` set (services st) \<longrightarrow>
      deleteService env i st = (Error ''Failed to delete service'', st)) \<and>
   (fst (deleteService env i st) = Undefined \<longrightarrow>
      fst (deleteService env' i (snd (deleteService env i st))) = Error ''Failed to delete service'')"
proof -
  have first: "i \<notin> id' ` set xs \<Longrightarrow> find (\<lambda>r. id' r = i) xs = None" for xs
    by (simp add: find_id_None_iff)
  have gone: "find (\<lambda>r. id' r = i) (filter (\<lambda>x. id' x \<noteq> i) xs) = None" for xs
    by (simp add: find_None_iff)
  have a: "i \<notin> id' ` set (services st) \<longrightarrow>
      deleteService env i st = (Error ''Failed to delete service'', st)"
    by (simp add: deleteService_def prisma_service_delete_def first)
  have b: "fst (deleteService env i st) = Undefined \<longrightarrow>
      fst (deleteService env' i (snd (deleteService env i st))) = Error ''Failed to delete service''"
    by (cases "find (\<lambda>r. id' r = i) (services st)")
      (simp_all add: deleteService_def prisma_service_delete_def gone revalidateTag_def
        revalidatePath_def)
  from a b show ?thesis by simp
qed

theorem delete_nonexistent_fails_witness:
  "deleteService online ''65f0c0ffee00000000000fff'' twoServices =
     (Error ''Failed to delete service'', twoServices) \<and>
   fst (deleteService online (id' hosting) twoServices) = Undefined \<and>
   fst (deleteService online (id' hosting) (snd (deleteService online (id' hosting) twoServices))) =
     Error ''Failed to delete service''"
proof -
  have absent: "''65f0c0ffee00000000000fff'' \<notin> id' ` set (services twoServices)"
    by (simp add: twoServices_def webDesign_def hosting_def)
  have deleted: "fst (deleteService online (id' hosting) twoServices) = Undefined"
    by (simp add: deleteService_def prisma_service_delete_def online_def twoServices_def
        webDesign_def hosting_def)
  show ?thesis
    using delete_nonexistent_fails [of "''65f0c0ffee00000000000fff''" twoServices online online]
      delete_nonexistent_fails [of "id' hosting" twoServices online online]
    by (simp add: absent deleted)
qed

section \<open>The debounced commit\<close>

lemmas component_defs =
  mount_def debounceEffect_def setLocalSearchTerm_def handleSearchChange_def elapse_def
  timeoutCallback_def

lemma map_of_params_set: "map_of (params_set key value params) key = Some value"
  by (induction params) auto

lemma closuresCurrent_debounceEffect: "closuresCurrent (debounceEffect t c)"
  by (simp add: closuresCurrent_def debounceEffect_def)

lemma closuresCurrent_setLocalSearchTerm:
  "closuresCurrent c \<Longrightarrow> closuresCurrent (setLocalSearchTerm t value c)"
  by (simp add: setLocalSearchTerm_def closuresCurrent_debounceEffect)

lemma closuresCurrent_mount: "closuresCurrent (mount t params)"
  by (simp add: mount_def closuresCurrent_setLocalSearchTerm closuresCurrent_debounceEffect)

lemma closuresCurrent_elapse: "closuresCurrent c \<Longrightarrow> closuresCurrent (elapse t c)"
  by (auto simp: elapse_def timeoutCallback_def closuresCurrent_def split: option.splits)

lemma closuresCurrent_handle: "closuresCurrent c \<Longrightarrow> closuresCurrent (handle t e c)"
proof (cases e)
  case (Typed v)
  assume "closuresCurrent c"
  with Typed show ?thesis
    by (simp add: handleSearchChange_def closuresCurrent_setLocalSearchTerm)
next
  case (StatusSelected v)
  assume "closuresCurrent c"
  with StatusSelected show ?thesis
    by (simp add: handleStatusChange_def closuresCurrent_def split: option.splits)
next
  case (Navigated params)
  assume "closuresCurrent c"
  with Navigated show ?thesis
    by (simp add: navigated_def Let_def closuresCurrent_setLocalSearchTerm
        closuresCurrent_debounceEffect)
qed

lemma closuresCurrent_run: "closuresCurrent c \<Longrightarrow> closuresCurrent (run c events)"
proof (induction events arbitrary: c)
  case Nil
  then show ?case by simp
next
  case (Cons te events)
  obtain t e where te: "te = (t, e)" by (cases te)
  from Cons.prems have "closuresCurrent (handle t e (elapse t c))"
    by (simp add: closuresCurrent_handle closuresCurrent_elapse)
  then show ?case using Cons.IH te by simp
qed

lemma elapse_no_commit_when_equal:
  assumes "closuresCurrent c" and "localSearchTerm c = searchTerm c"
  shows "pushed (elapse T c) = pushed c"
  using assms
  by (auto simp: elapse_def timeoutCallback_def closuresCurrent_def split: option.splits)

lemma searchProp_createQueryString:
  assumes "v \<noteq> []" and "v \<noteq> ''all''"
  shows "searchProp (createQueryString ps ''search'' v) = v"
  using assms by (simp add: searchProp_def createQueryString_def map_of_params_set)

lemma state_after_three_changes:
  assumes "v3 \<noteq> v2"
  shows "run (mount 0 ps) [(0, Typed v1), (500, Typed v2), (1000, Typed v3)] =
           \<lparr> searchTerm = searchProp ps, searchParams = ps, localSearchTerm = v3,
             timeoutId = Some \<lparr> due = 2500, closed_localSearchTerm = v3,
                                closed_searchTerm = searchProp ps, closed_searchParams = ps \<rparr>,
             pushed = [] \<rparr>"
  using assms by (auto simp: component_defs)

lemma scenario_three_changes:
  assumes "v3 \<noteq> v2" and "v3 \<noteq> searchProp ps"
  shows "pushed (elapse T (run (mount 0 ps) [(0, Typed v1), (500, Typed v2), (1000, Typed v3)])) =
           (if 2500 \<le> T then [(2500, createQueryString ps ''search'' v3)] else [])"
  unfolding state_after_three_changes [OF assms(1)]
  using assms(2) by (simp add: elapse_def timeoutCallback_def)

lemma run_snoc: "run c (events @ [(t, e)]) = handle t e (elapse t (run c events))"
  by (induction events arbitrary: c) auto

lemma scenario_push_lands:
  assumes "v3 \<noteq> v2" and "v3 \<noteq> searchProp ps" and "v3 \<noteq> []" and "v3 \<noteq> ''all''"
    and "2500 \<le> t'"
  shows "pushed (elapse T (run (mount 0 ps)
           [(0, Typed v1), (500, Typed v2), (1000, Typed v3),
            (t', Navigated (createQueryString ps ''search'' v3))])) =
           [(2500, createQueryString ps ''search'' v3)]"
proof -
  from assms have ne: "createQueryString ps ''search'' v3 \<noteq> ps"
    using searchProp_createQueryString [of v3 ps] by auto
  have four: "run (mount 0 ps)
           [(0, Typed v1), (500, Typed v2), (1000, Typed v3),
            (t', Navigated (createQueryString ps ''search'' v3))] =
        handle t' (Navigated (createQueryString ps ''search'' v3))
          (elapse t' (run (mount 0 ps) [(0, Typed v1), (500, Typed v2), (1000, Typed v3)]))"
    using run_snoc [of "mount 0 ps" "[(0, Typed v1), (500, Typed v2), (1000, Typed v3)]"]
    by simp
  show ?thesis
    unfolding four state_after_three_changes [OF assms(1)]
    using assms ne
    by (simp add: elapse_def timeoutCallback_def navigated_def Let_def
        searchProp_createQueryString debounceEffect_def setLocalSearchTerm_def)
qed

text \<open>
  C9. With the component mounted at time 0 and the search box changed at 0 ms, 500 ms and
  1000 ms, the last value differing from the one before it and from the committed search term,
  the pushes made by any time \<open>T\<close> with nothing else happening are: none before 2500 ms, and
  from 2500 ms on exactly one, made at 2500 ms from the value staged at 1000 ms. Unless that
  value is empty or the text \<open>all\<close>, the \<open>search\<close> parameter pushed is that value, and the
  landing of the push at any later time brings no second one. Every change of the staged value
  replaces the pending timeout by one due 1500 ms later. In every state the component can
  reach, a timeout that comes due pushes nothing when the staged value equals the committed
  search term.
\<close>

theorem debounce_trailing_commit:
  "(v3 \<noteq> v2 \<and> v3 \<noteq> searchProp ps \<longrightarrow>
      pushed (elapse T (run (mount 0 ps) [(0, Typed v1), (500, Typed v2), (1000, Typed v3)])) =
        (if 2500 \<le> T then [(2500, createQueryString ps ''search'' v3)] else [])) \<and>
   (v3 \<noteq> v2 \<and> v3 \<noteq> searchProp ps \<and> v3 \<noteq> [] \<and> v3 \<noteq> ''all'' \<and> 2500 \<le> t' \<longrightarrow>
      map_of (createQueryString ps ''search'' v3) ''search'' = Some v3 \<and>
      pushed (elapse T (run (mount 0 ps)
         [(0, Typed v1), (500, Typed v2), (1000, Typed v3),
          (t', Navigated (createQueryString ps ''search'' v3))])) =
        [(2500, createQueryString ps ''search'' v3)]) \<and>
   (value \<noteq> localSearchTerm c \<longrightarrow>
      timeoutId (handleSearchChange t value c) =
        Some \<lparr> due = t + 1500, closed_localSearchTerm = value,
               closed_searchTerm = searchTerm c, closed_searchParams = searchParams c \<rparr>) \<and>
   (localSearchTerm (run (mount t0 ps) events) = searchTerm (run (mount t0 ps) events) \<longrightarrow>
      pushed (elapse T (run (mount t0 ps) events)) = pushed (run (mount t0 ps) events))"
proof -
  have a: "v3 \<noteq> v2 \<and> v3 \<noteq> searchProp ps \<longrightarrow>
      pushed (elapse T (run (mount 0 ps) [(0, Typed v1), (500, Typed v2), (1000, Typed v3)])) =
        (if 2500 \<le> T then [(2500, createQueryString ps ''search'' v3)] else [])"
    using scenario_three_changes [of v3 v2 ps T v1] by blast
  have b: "v3 \<noteq> v2 \<and> v3 \<noteq> searchProp ps \<and> v3 \<noteq> [] \<and> v3 \<noteq> ''all'' \<and> 2500 \<le> t' \<longrightarrow>
      map_of (createQueryString ps ''search'' v3) ''search'' = Some v3 \<and>
      pushed (elapse T (run (mount 0 ps)
         [(0, Typed v1), (500, Typed v2), (1000, Typed v3),
          (t', Navigated (createQueryString ps ''search'' v3))])) =
        [(2500, createQueryString ps ''search'' v3)]"
    using scenario_push_lands [of v3 v2 ps t' T v1]
    by (simp add: createQueryString_def map_of_params_set)
  have c: "value \<noteq> localSearchTerm c \<longrightarrow>
      timeoutId (handleSearchChange t value c) =
        Some \<lparr> due = t + 1500, closed_localSearchTerm = value,
               closed_searchTerm = searchTerm c, closed_searchParams = searchParams c \<rparr>"
    by (simp add: handleSearchChange_def setLocalSearchTerm_def debounceEffect_def)
  have d: "localSearchTerm (run (mount t0 ps) events) = searchTerm (run (mount t0 ps) events) \<longrightarrow>
      pushed (elapse T (run (mount t0 ps) events)) = pushed (run (mount t0 ps) events)"
    using elapse_no_commit_when_equal [OF closuresCurrent_run [OF closuresCurrent_mount]]
    by blast
  from a b c d show ?thesis by blast
qed

theorem debounce_trailing_commit_witness:
  "pushed (elapse 2499 (run (mount 0 []) [(0, Typed ''w''), (500, Typed ''we''), (1000, Typed ''web'')])) = [] \<and>
   pushed (elapse 2500 (run (mount 0 []) [(0, Typed ''w''), (500, Typed ''we''), (1000, Typed ''web'')])) =
     [(2500, [(''search'', ''web'')])] \<and>
   pushed (elapse 60000 (run (mount 0 [])
      [(0, Typed ''w''), (500, Typed ''we''), (1000, Typed ''web''),
       (2600, Navigated [(''search'', ''web'')])])) =
     [(2500, [(''search'', ''web'')])]"
proof -
  have q: "createQueryString [] ''search'' ''web'' = [(''search'', ''web'')]"
    by (simp add: createQueryString_def)
  have s: "searchProp [] = []"
    by (simp add: searchProp_def)
  show ?thesis
    using debounce_trailing_commit [of "''web''" "''we''" "[]" 2499 "''w''" 2600]
      debounce_trailing_commit [of "''web''" "''we''" "[]" 2500 "''w''" 2600]
      debounce_trailing_commit [of "''web''" "''we''" "[]" 60000 "''w''" 2600]
    by (simp add: q s)
qed

end
